theory Spec2Isabelle
  imports Complex_Main
begin

section \<open>Orders (internal/domain/order/order.go)\<close>

text \<open>
  \<open>Side\<close> and \<open>Status\<close> are string types in the source. \<open>NewOrder\<close> stores whatever side
  it is handed, so a side other than the two constants is a value of the type; a status is
  only ever written by \<open>NewOrder\<close>, \<open>Fill\<close> and \<open>Cancel\<close>, which use the four constants.
  Prices and quantities are \<open>float64\<close> in the source; they are modelled as exact reals,
  the type the specification gives them. A \<open>time.Time\<close> is a clock reading, a natural
  number handed to the function that calls \<open>time.Now()\<close>.
\<close>

datatype Side = SideBuy | SideSell | SideOther string

datatype Status = StatusNew | StatusFilled | StatusCancelled | StatusPartial

text \<open>The errors of the source are \<open>fmt.Errorf\<close> messages; one constructor for each message.\<close>

datatype error =
    PriceNotPositive        \<comment> \<open>price must be positive\<close>
  | QuantityNotPositive     \<comment> \<open>quantity must be positive\<close>
  | InvalidFill             \<comment> \<open>fill quantity must be positive\<close>
  | AlreadyCancelled        \<comment> \<open>cannot fill cancelled order\<close>
  | Overfill                \<comment> \<open>fill amount exceeds order quantity\<close>
  | AlreadyFilled           \<comment> \<open>cannot cancel filled order\<close>
  | InvalidSymbol string    \<comment> \<open>invalid symbol: ...\<close>
  | OrderNotFound string    \<comment> \<open>order not found: ...\<close>
  | NoBids                  \<comment> \<open>no bids available\<close>
  | NoAsks                  \<comment> \<open>no asks available\<close>

record Order =
  ID :: string
  Side :: Side
  Symbol :: string
  Price :: real
  Quantity :: real
  Filled :: real
  Status :: Status
  CreatedAt :: nat
  UpdatedAt :: nat

text \<open>\<open>NewOrder\<close>; the identifier comes from \<open>generateOrderID\<close> (a fresh UUID), an input here.\<close>

definition NewOrder :: "string \<Rightarrow> nat \<Rightarrow> Side \<Rightarrow> string \<Rightarrow> real \<Rightarrow> real \<Rightarrow> error + Order" where
  "NewOrder newID now side symb price quantity =
     (if price \<le> 0 then Inl PriceNotPositive
      else if quantity \<le> 0 then Inl QuantityNotPositive
      else Inr \<lparr>ID = newID, Side = side, Symbol = symb, Price = price, Quantity = quantity,
                Filled = 0, Status = StatusNew, CreatedAt = now, UpdatedAt = now\<rparr>)"

text \<open>
  \<open>Fill\<close> mutates its receiver and returns an error or nil: the model returns the error
  (if any) together with the order as the call leaves it.
\<close>

definition Fill :: "nat \<Rightarrow> real \<Rightarrow> Order \<Rightarrow> error option \<times> Order" where
  "Fill now quantity ord =
     (if quantity \<le> 0 then (Some InvalidFill, ord)
      else if Status ord = StatusCancelled then (Some AlreadyCancelled, ord)
      else
        let o1 = ord\<lparr>Filled := Filled ord + quantity, UpdatedAt := now\<rparr> in
        if Filled o1 > Quantity o1 then (Some Overfill, o1)
        else if Filled o1 = Quantity o1 then (None, o1\<lparr>Status := StatusFilled\<rparr>)
        else (None, o1\<lparr>Status := StatusPartial\<rparr>))"

definition Cancel :: "nat \<Rightarrow> Order \<Rightarrow> error option \<times> Order" where
  "Cancel now ord =
     (if Status ord = StatusFilled then (Some AlreadyFilled, ord)
      else (None, ord\<lparr>Status := StatusCancelled, UpdatedAt := now\<rparr>))"

definition RemainingQuantity :: "Order \<Rightarrow> real" where
  "RemainingQuantity ord = Quantity ord - Filled ord"

definition IsActive :: "Order \<Rightarrow> bool" where
  "IsActive ord \<longleftrightarrow> Status ord \<noteq> StatusFilled \<and> Status ord \<noteq> StatusCancelled"

section \<open>The order book (package orderbook)\<close>

text \<open>
  The book holds pointers to orders: the same \<open>Order\<close> object is reached from a level queue,
  from the \<open>orders\<close> map and from the caller. The model keeps the orders in a store, a list
  indexed by address, and the book holds addresses. A level's \<open>Next\<close> pointer is the tail
  of the list of levels (\<open>Previous\<close> is only ever set to nil).
\<close>

record PriceLevel =
  LevelPrice :: real
  Orders :: "nat list"

record OrderBook =
  symbol :: string
  buyLevels :: "PriceLevel list"
  sellLevels :: "PriceLevel list"
  orders :: "string \<rightharpoonup> nat"

definition NewOrderBook :: "string \<Rightarrow> OrderBook" where
  "NewOrderBook symb = \<lparr>symbol = symb, buyLevels = [], sellLevels = [], orders = Map.empty\<rparr>"

definition min_float :: "real \<Rightarrow> real \<Rightarrow> real" where
  "min_float a b = (if a < b then a else b)"

subsection \<open>tryMatch\<close>

text \<open>The inner \<open>for ... range matchingLevels.Orders\<close> loop; it changes orders and the map.\<close>

fun tryMatchOrders ::
  "nat \<Rightarrow> nat \<Rightarrow> nat list \<Rightarrow> Order list \<Rightarrow> (string \<rightharpoonup> nat)
     \<Rightarrow> error option \<times> Order list \<times> (string \<rightharpoonup> nat)" where
  "tryMatchOrders now a [] h om = (None, h, om)"
| "tryMatchOrders now a (r # rs) h om =
     (if Status (h ! r) = StatusCancelled then tryMatchOrders now a rs h om
      else
        let matchQty = min_float (RemainingQuantity (h ! a)) (RemainingQuantity (h ! r)) in
        if matchQty \<le> 0 then tryMatchOrders now a rs h om
        else
          (case Fill now matchQty (h ! a) of
             (Some e, o') \<Rightarrow> (Some e, h[a := o'], om)
           | (None, o') \<Rightarrow>
               let h1 = h[a := o'] in
               (case Fill now matchQty (h1 ! r) of
                  (Some e, r') \<Rightarrow> (Some e, h1[r := r'], om)
                | (None, r') \<Rightarrow>
                    let h2 = h1[r := r'];
                        om' = (if Status (h2 ! r) = StatusFilled
                               then om(ID (h2 ! r) := None) else om)
                    in if Status (h2 ! a) = StatusFilled then (None, h2, om')
                       else tryMatchOrders now a rs h2 om')))"

text \<open>The outer loop over the levels of the opposite side, best level first.\<close>

fun tryMatchLevels ::
  "nat \<Rightarrow> nat \<Rightarrow> bool \<Rightarrow> PriceLevel list \<Rightarrow> Order list \<Rightarrow> (string \<rightharpoonup> nat)
     \<Rightarrow> error option \<times> Order list \<times> (string \<rightharpoonup> nat)" where
  "tryMatchLevels now a isAggressive [] h om = (None, h, om)"
| "tryMatchLevels now a isAggressive (l # ls) h om =
     (if Status (h ! a) = StatusFilled then (None, h, om)
      else if (isAggressive \<and> Price (h ! a) < LevelPrice l)
              \<or> (\<not> isAggressive \<and> Price (h ! a) > LevelPrice l) then (None, h, om)
      else
        (case tryMatchOrders now a (Orders l) h om of
           (Some e, h', om') \<Rightarrow> (Some e, h', om')
         | (None, h', om') \<Rightarrow> tryMatchLevels now a isAggressive ls h' om'))"

definition tryMatch ::
  "nat \<Rightarrow> nat \<Rightarrow> Order list \<Rightarrow> OrderBook \<Rightarrow> error option \<times> Order list \<times> OrderBook" where
  "tryMatch now a h ob =
     (case (case Side (h ! a) of
              SideBuy \<Rightarrow> (sellLevels ob, True)
            | SideSell \<Rightarrow> (buyLevels ob, False)
            | SideOther _ \<Rightarrow> ([], False)) of
        (matchingLevels, isAggressive) \<Rightarrow>
          (case tryMatchLevels now a isAggressive matchingLevels h (orders ob) of
             (e, h', om') \<Rightarrow> (e, h', ob\<lparr>orders := om'\<rparr>)))"

subsection \<open>Inserting a resting order\<close>

definition newLevel :: "real \<Rightarrow> PriceLevel" where
  "newLevel price = \<lparr>LevelPrice = price, Orders = []\<rparr>"

text \<open>
  The scan of \<open>findOrCreateBuyLevel\<close> from \<open>current\<close> on: the result is the list of levels
  from \<open>current\<close> and the position in it of the level the function returns.
\<close>

fun buyLevelFrom :: "real \<Rightarrow> PriceLevel \<Rightarrow> PriceLevel list \<Rightarrow> PriceLevel list \<times> nat" where
  "buyLevelFrom price current [] =
     (if LevelPrice current = price then ([current], 0)
      else ([current, newLevel price], 1))"
| "buyLevelFrom price current (n # rest) =
     (if price < LevelPrice n then
        (case buyLevelFrom price n rest of (ls, i) \<Rightarrow> (current # ls, Suc i))
      else if LevelPrice current = price then (current # n # rest, 0)
      else (current # newLevel price # n # rest, 1))"

definition findOrCreateBuyLevel :: "real \<Rightarrow> PriceLevel list \<Rightarrow> PriceLevel list \<times> nat" where
  "findOrCreateBuyLevel price levels =
     (case levels of
        [] \<Rightarrow> ([newLevel price], 0)
      | l # ls \<Rightarrow>
          if price > LevelPrice l then (newLevel price # levels, 0)
          else buyLevelFrom price l ls)"

fun sellLevelFrom :: "real \<Rightarrow> PriceLevel \<Rightarrow> PriceLevel list \<Rightarrow> PriceLevel list \<times> nat" where
  "sellLevelFrom price current [] =
     (if LevelPrice current = price then ([current], 0)
      else ([current, newLevel price], 1))"
| "sellLevelFrom price current (n # rest) =
     (if price > LevelPrice n then
        (case sellLevelFrom price n rest of (ls, i) \<Rightarrow> (current # ls, Suc i))
      else if LevelPrice current = price then (current # n # rest, 0)
      else (current # newLevel price # n # rest, 1))"

definition findOrCreateSellLevel :: "real \<Rightarrow> PriceLevel list \<Rightarrow> PriceLevel list \<times> nat" where
  "findOrCreateSellLevel price levels =
     (case levels of
        [] \<Rightarrow> ([newLevel price], 0)
      | l # ls \<Rightarrow>
          if price < LevelPrice l then (newLevel price # levels, 0)
          else sellLevelFrom price l ls)"

definition appendOrder :: "nat \<Rightarrow> PriceLevel list \<times> nat \<Rightarrow> PriceLevel list" where
  "appendOrder a r = (case r of (ls, i) \<Rightarrow> ls[i := (ls ! i)\<lparr>Orders := Orders (ls ! i) @ [a]\<rparr>])"

definition addBuyOrder :: "nat \<Rightarrow> Order list \<Rightarrow> OrderBook \<Rightarrow> OrderBook" where
  "addBuyOrder a h ob =
     ob\<lparr>buyLevels := appendOrder a (findOrCreateBuyLevel (Price (h ! a)) (buyLevels ob))\<rparr>"

definition addSellOrder :: "nat \<Rightarrow> Order list \<Rightarrow> OrderBook \<Rightarrow> OrderBook" where
  "addSellOrder a h ob =
     ob\<lparr>sellLevels := appendOrder a (findOrCreateSellLevel (Price (h ! a)) (sellLevels ob))\<rparr>"

subsection \<open>match\<close>

text \<open>
  \<open>processLevelMatch\<close> works on the queues of the two best levels and on the orders. It
  ignores what \<open>Fill\<close> returns. The loop has no bound in the source (two cancelled orders
  at the heads are never removed), so the model is a partial function: \<open>None\<close> is a call
  that does not return.
\<close>

partial_function (option) processLevelMatch ::
  "nat \<Rightarrow> nat list \<Rightarrow> nat list \<Rightarrow> Order list \<Rightarrow> (nat list \<times> nat list \<times> Order list) option" where
  "processLevelMatch now bq sq h =
     (case bq of
        [] \<Rightarrow> Some (bq, sq, h)
      | buy # bs \<Rightarrow>
          (case sq of
             [] \<Rightarrow> Some (bq, sq, h)
           | sell # ss \<Rightarrow>
               let matchQty = min_float (RemainingQuantity (h ! buy)) (RemainingQuantity (h ! sell));
                   h1 = h[buy := snd (Fill now matchQty (h ! buy))];
                   h2 = h1[sell := snd (Fill now matchQty (h1 ! sell))]
               in processLevelMatch now
                    (if Status (h2 ! buy) = StatusFilled then bs else bq)
                    (if Status (h2 ! sell) = StatusFilled then ss else sq)
                    h2))"

definition cleanupEmptyLevels :: "OrderBook \<Rightarrow> OrderBook" where
  "cleanupEmptyLevels ob =
     ob\<lparr>buyLevels := dropWhile (\<lambda>l. Orders l = []) (buyLevels ob),
        sellLevels := dropWhile (\<lambda>l. Orders l = []) (sellLevels ob)\<rparr>"

partial_function (option) match ::
  "nat \<Rightarrow> Order list \<Rightarrow> OrderBook \<Rightarrow> (Order list \<times> OrderBook) option" where
  "match now h ob =
     (case buyLevels ob of
        [] \<Rightarrow> Some (h, ob)
      | bestBuy # bls \<Rightarrow>
          (case sellLevels ob of
             [] \<Rightarrow> Some (h, ob)
           | bestSell # sls \<Rightarrow>
               if LevelPrice bestBuy < LevelPrice bestSell then Some (h, ob)
               else
                 (case processLevelMatch now (Orders bestBuy) (Orders bestSell) h of
                    None \<Rightarrow> None
                  | Some (bq, sq, h') \<Rightarrow>
                      match now h'
                        (cleanupEmptyLevels
                           (ob\<lparr>buyLevels := bestBuy\<lparr>Orders := bq\<rparr> # bls,
                               sellLevels := bestSell\<lparr>Orders := sq\<rparr> # sls\<rparr>)))))"

subsection \<open>The public operations\<close>

text \<open>
  \<open>AddOrder\<close> takes the address of the order. An address outside the store stands for a
  nil pointer: the call panics at \<open>o.Symbol\<close> and does not return.
\<close>

definition AddOrder ::
  "nat \<Rightarrow> nat \<Rightarrow> Order list \<Rightarrow> OrderBook \<Rightarrow> (error option \<times> Order list \<times> OrderBook) option" where
  "AddOrder now a h ob =
     (if length h \<le> a then None
      else if Symbol (h ! a) \<noteq> symbol ob then Some (Some (InvalidSymbol (Symbol (h ! a))), h, ob)
      else
        (case tryMatch now a h ob of
           (Some e, h1, ob1) \<Rightarrow> Some (Some e, h1, ob1)
         | (None, h1, ob1) \<Rightarrow>
             let ob2 =
               (if Status (h1 ! a) \<noteq> StatusFilled then
                  (let ob' = (case Side (h1 ! a) of
                                SideBuy \<Rightarrow> addBuyOrder a h1 ob1
                              | SideSell \<Rightarrow> addSellOrder a h1 ob1
                              | SideOther _ \<Rightarrow> ob1)
                   in ob'\<lparr>orders := (orders ob')(ID (h1 ! a) \<mapsto> a)\<rparr>)
                else ob1)
             in map_option (\<lambda>r. (None, r)) (match now h1 ob2)))"

fun findOrder :: "Order list \<Rightarrow> PriceLevel list \<Rightarrow> string \<Rightarrow> nat option" where
  "findOrder h [] orderID = None"
| "findOrder h (level # rest) orderID =
     (case List.find (\<lambda>a. ID (h ! a) = orderID) (Orders level) of
        Some a \<Rightarrow> Some a
      | None \<Rightarrow> findOrder h rest orderID)"

definition GetOrder :: "string \<Rightarrow> Order list \<Rightarrow> OrderBook \<Rightarrow> error + nat" where
  "GetOrder orderID h ob =
     (case findOrder h (buyLevels ob) orderID of
        Some a \<Rightarrow> Inr a
      | None \<Rightarrow>
          (case findOrder h (sellLevels ob) orderID of
             Some a \<Rightarrow> Inr a
           | None \<Rightarrow> Inl (OrderNotFound orderID)))"

definition CancelOrder ::
  "nat \<Rightarrow> string \<Rightarrow> Order list \<Rightarrow> OrderBook \<Rightarrow> error option \<times> Order list \<times> OrderBook" where
  "CancelOrder now orderID h ob =
     (case orders ob orderID of
        None \<Rightarrow> (Some (OrderNotFound orderID), h, ob)
      | Some a \<Rightarrow>
          (case Cancel now (h ! a) of
             (Some e, o') \<Rightarrow> (Some e, h[a := o'], ob)
           | (None, o') \<Rightarrow> (None, h[a := o'], ob\<lparr>orders := (orders ob)(orderID := None)\<rparr>)))"

definition levelQuantity :: "Order list \<Rightarrow> PriceLevel \<Rightarrow> real" where
  "levelQuantity h level = foldl (\<lambda>totalQty a. totalQty + RemainingQuantity (h ! a)) 0 (Orders level)"

definition GetBestBid :: "Order list \<Rightarrow> OrderBook \<Rightarrow> error + real \<times> real" where
  "GetBestBid h ob =
     (case buyLevels ob of
        [] \<Rightarrow> Inl NoBids
      | level # _ \<Rightarrow>
          if Orders level = [] then Inl NoBids
          else Inr (LevelPrice level, levelQuantity h level))"

definition GetBestAsk :: "Order list \<Rightarrow> OrderBook \<Rightarrow> error + real \<times> real" where
  "GetBestAsk h ob =
     (case sellLevels ob of
        [] \<Rightarrow> Inl NoAsks
      | level # _ \<Rightarrow>
          if Orders level = [] then Inl NoAsks
          else Inr (LevelPrice level, levelQuantity h level))"

section \<open>Sequences of calls\<close>

text \<open>
  A caller creates orders with \<open>NewOrder\<close> (the new order gets the next free address),
  admits an order it holds, or cancels by identifier. An operation that returns an error
  leaves the state as the call left it; a call that does not return ends the run.
\<close>

datatype op =
    OpNewOrder string nat Side string real real
  | OpAddOrder nat nat
  | OpCancelOrder nat string

fun step :: "op \<Rightarrow> Order list \<times> OrderBook \<Rightarrow> (Order list \<times> OrderBook) option" where
  "step (OpNewOrder newID now side symb price quantity) (h, ob) =
     (case NewOrder newID now side symb price quantity of
        Inl e \<Rightarrow> Some (h, ob)
      | Inr ord \<Rightarrow> Some (h @ [ord], ob))"
| "step (OpAddOrder now a) (h, ob) = map_option snd (AddOrder now a h ob)"
| "step (OpCancelOrder now orderID) (h, ob) = Some (snd (CancelOrder now orderID h ob))"

fun run :: "op list \<Rightarrow> Order list \<times> OrderBook \<Rightarrow> (Order list \<times> OrderBook) option" where
  "run [] s = Some s"
| "run (x # xs) s = (case step x s of None \<Rightarrow> None | Some s' \<Rightarrow> run xs s')"

section \<open>Vocabulary of the properties\<close>

text \<open>The filled quantity summed over all orders of one side.\<close>

definition totalFilled :: "Side \<Rightarrow> Order list \<Rightarrow> real" where
  "totalFilled side h = sum_list (map Filled (filter (\<lambda>ord. Side ord = side) h))"

text \<open>
  The order at an address is cancelled and its filled quantity is \<open>c\<close>.
\<close>

definition frozen :: "nat \<Rightarrow> real \<Rightarrow> Order list \<Rightarrow> bool" where
  "frozen x c h \<longleftrightarrow> x < length h \<and> Status (h ! x) = StatusCancelled \<and> Filled (h ! x) = c"











section \<open>Evaluating calls on concrete books\<close>

lemmas scenario_simps =
  NewOrderBook_def NewOrder_def AddOrder_def tryMatch_def addBuyOrder_def addSellOrder_def
  findOrCreateBuyLevel_def findOrCreateSellLevel_def appendOrder_def newLevel_def
  Fill_def Cancel_def min_float_def RemainingQuantity_def cleanupEmptyLevels_def
  CancelOrder_def GetBestBid_def GetBestAsk_def GetOrder_def levelQuantity_def Let_def

text \<open>
  C10. Some reachable book has a stale best bid: a resting buy of 1 at 50000 is filled
  exactly by an incoming sell of 1 at 50000 in \<open>tryMatch\<close>, which leaves the filled
  order in its queue; \<open>GetBestBid\<close> then succeeds with the price 50000 and the
  aggregate remaining quantity 0 instead of failing.
\<close>

theorem stale_best_bid_after_exact_fill:
  "\<exists>h ob.
     run [OpNewOrder ''b1'' 0 SideBuy ''BTC-USD'' 50000 1, OpAddOrder 1 0,
          OpNewOrder ''s1'' 2 SideSell ''BTC-USD'' 50000 1, OpAddOrder 3 1]
       ([], NewOrderBook ''BTC-USD'') = Some (h, ob) \<and>
     Status (h ! 0) = StatusFilled \<and> RemainingQuantity (h ! 0) = 0 \<and>
     buyLevels ob = [\<lparr>LevelPrice = 50000, Orders = [0]\<rparr>] \<and>
     GetBestBid h ob = Inr (50000, 0)"
  by (simp add: scenario_simps match.simps processLevelMatch.simps)

text \<open>
  C2 (conservation of filled quantity) at a failing input. A buy of 1 at 100 rests and is
  cancelled; \<open>CancelOrder\<close> leaves it in its queue. A sell of 1 at 100 is admitted:
  \<open>tryMatch\<close> skips the cancelled order, the sell rests, and \<open>processLevelMatch\<close> then
  calls \<open>Fill\<close> on both heads and ignores the error of the cancelled one. The sell ends
  Filled with 1 while no buy order was filled at all.
\<close>

theorem sell_filled_against_cancelled_buy:
  "\<exists>h ob.
     run [OpNewOrder ''b1'' 0 SideBuy ''BTC-USD'' 100 1, OpAddOrder 1 0,
          OpCancelOrder 2 ''b1'',
          OpNewOrder ''s1'' 3 SideSell ''BTC-USD'' 100 1, OpAddOrder 4 1]
       ([], NewOrderBook ''BTC-USD'') = Some (h, ob) \<and>
     Status (h ! 0) = StatusCancelled \<and> Status (h ! 1) = StatusFilled \<and>
     totalFilled SideBuy h = 0 \<and> totalFilled SideSell h = 1"
  by (simp add: scenario_simps match.simps processLevelMatch.simps totalFilled_def)

text \<open>
  C3 (cancelling the only resting buy empties the bid side) at a failing input. After a
  buy of 1 at 50000 is admitted to a new book and cancelled by its identifier, the order
  is Cancelled, but it is still in the queue of its level, the level is still there, and
  \<open>GetBestBid\<close> answers 50000 with quantity 1 instead of failing.
\<close>

theorem cancelled_order_stays_in_level:
  "\<exists>h ob h' ob'.
     run [OpNewOrder ''b1'' 0 SideBuy ''BTC-USD'' 50000 1, OpAddOrder 1 0]
       ([], NewOrderBook ''BTC-USD'') = Some (h, ob) \<and>
     CancelOrder 2 ''b1'' h ob = (None, h', ob') \<and>
     Status (h' ! 0) = StatusCancelled \<and>
     buyLevels ob' = [\<lparr>LevelPrice = 50000, Orders = [0]\<rparr>] \<and>
     GetBestBid h' ob' = Inr (50000, 1)"
  by (simp add: scenario_simps match.simps processLevelMatch.simps)

text \<open>
  C4 (a failing \<open>Fill\<close> leaves the order unchanged) at a failing input. \<open>Fill\<close> adds to
  \<open>Filled\<close> and sets \<open>UpdatedAt\<close> before it compares with \<open>Quantity\<close>: filling 2 of a
  new order of quantity 1 returns the overfill error and leaves \<open>Filled = 2\<close> and the new
  timestamp behind.
\<close>

theorem overfill_error_after_mutation:
  "Fill 7 2 \<lparr>ID = ''b1'', Side = SideBuy, Symbol = ''BTC-USD'', Price = 50000, Quantity = 1,
             Filled = 0, Status = StatusNew, CreatedAt = 0, UpdatedAt = 0\<rparr>
   = (Some Overfill,
      \<lparr>ID = ''b1'', Side = SideBuy, Symbol = ''BTC-USD'', Price = 50000, Quantity = 1,
       Filled = 2, Status = StatusNew, CreatedAt = 0, UpdatedAt = 7\<rparr>)"
  by (simp add: Fill_def)

text \<open>
  C8 (first in, first out at one price) at a failing input. With buy levels 100 and 99,
  \<open>findOrCreateBuyLevel\<close> stops its scan in front of the level 99 and, the price of the
  level it stands on being 100, links a second level 99 before the first. The later buy
  at 99 (address 2) is then ahead of the earlier one (address 1): a sell of 2 at 99 fills
  the order at 100 and the later order, and the earlier order gets nothing.
\<close>

theorem later_order_filled_before_earlier:
  "\<exists>h ob h' ob'.
     run [OpNewOrder ''a'' 0 SideBuy ''BTC-USD'' 100 1, OpAddOrder 1 0,
          OpNewOrder ''b'' 2 SideBuy ''BTC-USD'' 99 1, OpAddOrder 3 1,
          OpNewOrder ''c'' 4 SideBuy ''BTC-USD'' 99 1, OpAddOrder 5 2]
       ([], NewOrderBook ''BTC-USD'') = Some (h, ob) \<and>
     buyLevels ob = [\<lparr>LevelPrice = 100, Orders = [0]\<rparr>, \<lparr>LevelPrice = 99, Orders = [2]\<rparr>,
                     \<lparr>LevelPrice = 99, Orders = [1]\<rparr>] \<and>
     run [OpNewOrder ''s'' 6 SideSell ''BTC-USD'' 99 2, OpAddOrder 7 3] (h, ob) = Some (h', ob') \<and>
     Status (h' ! 1) = StatusNew \<and> Filled (h' ! 1) = 0 \<and>
     Status (h' ! 2) = StatusFilled \<and> Filled (h' ! 2) = 1"
  by (simp add: scenario_simps match.simps processLevelMatch.simps)

section \<open>Cancelling\<close>

text \<open>
  C9. After \<open>CancelOrder\<close> has succeeded for an identifier, a second \<open>CancelOrder\<close> for
  the same identifier fails with the not-found error (and changes nothing): the first
  call deleted the identifier from the \<open>orders\<close> map.
\<close>

theorem second_cancel_not_found:
  "CancelOrder now orderID h ob = (None, h', ob') \<Longrightarrow>
   CancelOrder now' orderID h' ob' = (Some (OrderNotFound orderID), h', ob')"
  by (auto simp: CancelOrder_def split: option.splits prod.splits)

theorem second_cancel_not_found_witness:
  "CancelOrder 2 ''b1''
     [\<lparr>ID = ''b1'', Side = SideBuy, Symbol = ''BTC-USD'', Price = 50000, Quantity = 1,
       Filled = 0, Status = StatusNew, CreatedAt = 0, UpdatedAt = 0\<rparr>]
     \<lparr>symbol = ''BTC-USD'', buyLevels = [\<lparr>LevelPrice = 50000, Orders = [0]\<rparr>],
      sellLevels = [], orders = [''b1'' \<mapsto> 0]\<rparr>
   = (None,
      [\<lparr>ID = ''b1'', Side = SideBuy, Symbol = ''BTC-USD'', Price = 50000, Quantity = 1,
        Filled = 0, Status = StatusCancelled, CreatedAt = 0, UpdatedAt = 2\<rparr>],
      \<lparr>symbol = ''BTC-USD'', buyLevels = [\<lparr>LevelPrice = 50000, Orders = [0]\<rparr>],
       sellLevels = [], orders = Map.empty\<rparr>) \<and>
   CancelOrder 3 ''b1''
     [\<lparr>ID = ''b1'', Side = SideBuy, Symbol = ''BTC-USD'', Price = 50000, Quantity = 1,
       Filled = 0, Status = StatusCancelled, CreatedAt = 0, UpdatedAt = 2\<rparr>]
     \<lparr>symbol = ''BTC-USD'', buyLevels = [\<lparr>LevelPrice = 50000, Orders = [0]\<rparr>],
      sellLevels = [], orders = Map.empty\<rparr>
   = (Some (OrderNotFound ''b1''),
      [\<lparr>ID = ''b1'', Side = SideBuy, Symbol = ''BTC-USD'', Price = 50000, Quantity = 1,
        Filled = 0, Status = StatusCancelled, CreatedAt = 0, UpdatedAt = 2\<rparr>],
      \<lparr>symbol = ''BTC-USD'', buyLevels = [\<lparr>LevelPrice = 50000, Orders = [0]\<rparr>],
       sellLevels = [], orders = Map.empty\<rparr>)"
proof -
  have first:
    "CancelOrder 2 ''b1''
       [\<lparr>ID = ''b1'', Side = SideBuy, Symbol = ''BTC-USD'', Price = 50000, Quantity = 1,
         Filled = 0, Status = StatusNew, CreatedAt = 0, UpdatedAt = 0\<rparr>]
       \<lparr>symbol = ''BTC-USD'', buyLevels = [\<lparr>LevelPrice = 50000, Orders = [0]\<rparr>],
        sellLevels = [], orders = [''b1'' \<mapsto> 0]\<rparr>
     = (None,
        [\<lparr>ID = ''b1'', Side = SideBuy, Symbol = ''BTC-USD'', Price = 50000, Quantity = 1,
          Filled = 0, Status = StatusCancelled, CreatedAt = 0, UpdatedAt = 2\<rparr>],
        \<lparr>symbol = ''BTC-USD'', buyLevels = [\<lparr>LevelPrice = 50000, Orders = [0]\<rparr>],
         sellLevels = [], orders = Map.empty\<rparr>)"
    by (simp add: CancelOrder_def Cancel_def)
  from first second_cancel_not_found [OF first, of 3] show ?thesis
    by simp
qed

section \<open>A cancelled order is never touched again\<close>

lemma Fill_cancelled: "Status ord = StatusCancelled \<Longrightarrow> snd (Fill now q ord) = ord"
  by (simp add: Fill_def)

lemma frozen_Fill: "frozen x c h \<Longrightarrow> frozen x c (h[y := snd (Fill now q (h ! y))])"
  by (cases "y = x") (auto simp: frozen_def Fill_cancelled)

lemma frozen_Fill': "frozen x c h \<Longrightarrow> Fill now q (h ! y) = (e, o') \<Longrightarrow> frozen x c (h[y := o'])"
  using frozen_Fill [of x c h y now q] by simp

lemma frozen_Cancel': "frozen x c h \<Longrightarrow> Cancel now (h ! y) = (e, o') \<Longrightarrow> frozen x c (h[y := o'])"
  by (cases "y = x") (auto simp: frozen_def Cancel_def split: if_splits)

lemma frozen_tryMatchOrders:
  "frozen x c h \<Longrightarrow> tryMatchOrders now a rs h om = (e, h', om') \<Longrightarrow> frozen x c h'"
proof (induction rs arbitrary: h om)
  case Nil
  then show ?case by simp
next
  case (Cons r rs)
  show ?case
    using Cons.prems
    by (auto simp: Let_def split: if_splits prod.splits option.splits
        dest!: frozen_Fill' [rotated] intro: Cons.IH)
qed

lemma frozen_tryMatchLevels:
  "frozen x c h \<Longrightarrow> tryMatchLevels now a ag ls h om = (e, h', om') \<Longrightarrow> frozen x c h'"
proof (induction ls arbitrary: h om)
  case Nil
  then show ?case by simp
next
  case (Cons l ls)
  show ?case
    using Cons.prems
    by (auto split: if_splits prod.splits option.splits
        dest: frozen_tryMatchOrders intro: Cons.IH)
qed

lemma frozen_tryMatch:
  "frozen x c h \<Longrightarrow> tryMatch now a h ob = (e, h', ob') \<Longrightarrow> frozen x c h'"
  by (auto simp: tryMatch_def split: prod.splits Side.splits dest: frozen_tryMatchLevels)

lemma frozen_processLevelMatch:
  assumes "processLevelMatch now bq sq h = Some r"
  shows "frozen x c h \<longrightarrow> frozen x c (snd (snd r))"
  using assms
proof (induction rule: processLevelMatch.raw_induct [rotated 1, consumes 1])
  case (1 plm now bq sq h r)
  show ?case
    using 1(2)
    by (auto simp: Let_def frozen_Fill split: list.splits dest!: 1(1))
qed

lemma frozen_match:
  assumes "match now h ob = Some r"
  shows "frozen x c h \<longrightarrow> frozen x c (fst r)"
  using assms
proof (induction rule: match.raw_induct [rotated 1, consumes 1])
  case (1 m now h ob r)
  show ?case
    using 1(2)
    by (auto split: list.splits if_splits option.splits dest!: 1(1) frozen_processLevelMatch [where x = x and c = c])
qed

lemma frozen_AddOrder:
  "frozen x c h \<Longrightarrow> AddOrder now a h ob = Some (e, h', ob') \<Longrightarrow> frozen x c h'"
  by (auto simp: AddOrder_def Let_def split: if_splits prod.splits option.splits
      dest!: frozen_tryMatch [rotated] frozen_match)

lemma frozen_CancelOrder:
  "frozen x c h \<Longrightarrow> CancelOrder now orderID h ob = (e, h', ob') \<Longrightarrow> frozen x c h'"
  by (auto simp: CancelOrder_def split: prod.splits option.splits dest: frozen_Cancel')

lemma frozen_step:
  "frozen x c h \<Longrightarrow> step x' (h, ob) = Some (h', ob') \<Longrightarrow> frozen x c h'"
proof (cases x')
  case (OpNewOrder newID now side symb price quantity)
  assume "frozen x c h" "step x' (h, ob) = Some (h', ob')"
  with OpNewOrder show ?thesis
    by (auto simp: frozen_def nth_append split: sum.splits)
next
  case (OpAddOrder now a)
  assume "frozen x c h" "step x' (h, ob) = Some (h', ob')"
  with OpAddOrder show ?thesis
    by (auto dest: frozen_AddOrder)
next
  case (OpCancelOrder now orderID)
  assume "frozen x c h" "step x' (h, ob) = Some (h', ob')"
  with OpCancelOrder show ?thesis
    by (cases "CancelOrder now orderID h ob") (auto dest: frozen_CancelOrder)
qed

lemma frozen_run:
  "frozen x c (fst s) \<Longrightarrow> run ops s = Some s' \<Longrightarrow> frozen x c (fst s')"
proof (induction ops arbitrary: s)
  case Nil
  then show ?case by simp
next
  case (Cons x' ops)
  from Cons.prems obtain s1 where s1: "step x' s = Some s1" "run ops s1 = Some s'"
    by (auto split: option.splits)
  from Cons.prems(1) s1(1) have "frozen x c (fst s1)"
    by (cases s, cases s1) (auto dest: frozen_step)
  then show ?case using s1(2) by (rule Cons.IH)
qed

text \<open>
  C7. Cancelled is terminal. If the order at an address is Cancelled, then after any
  sequence of calls on the book (creating and admitting orders, with the matching they
  trigger, and cancelling) that returns, the order is still Cancelled with the same
  filled quantity; and a \<open>Fill\<close> on it, whatever the quantity, fails and leaves it as it is.
\<close>

theorem cancelled_is_terminal:
  "a < length h \<Longrightarrow> Status (h ! a) = StatusCancelled \<Longrightarrow> run ops (h, ob) = Some (h', ob') \<Longrightarrow>
   Status (h' ! a) = StatusCancelled \<and> Filled (h' ! a) = Filled (h ! a) \<and>
   fst (Fill now q (h' ! a)) \<noteq> None \<and> snd (Fill now q (h' ! a)) = h' ! a"
proof -
  assume "a < length h" "Status (h ! a) = StatusCancelled" and r: "run ops (h, ob) = Some (h', ob')"
  then have "frozen a (Filled (h ! a)) (fst (h, ob))"
    by (simp add: frozen_def)
  from frozen_run [OF this r] have "frozen a (Filled (h ! a)) h'"
    by simp
  then show ?thesis
    by (simp add: frozen_def Fill_def)
qed

theorem cancelled_is_terminal_witness:
  "\<exists>h' ob'.
     run [OpNewOrder ''s1'' 3 SideSell ''BTC-USD'' 100 1, OpAddOrder 4 1, OpCancelOrder 5 ''s1'']
       ([\<lparr>ID = ''b1'', Side = SideBuy, Symbol = ''BTC-USD'', Price = 100, Quantity = 1,
          Filled = 0, Status = StatusCancelled, CreatedAt = 0, UpdatedAt = 2\<rparr>],
        \<lparr>symbol = ''BTC-USD'', buyLevels = [\<lparr>LevelPrice = 100, Orders = [0]\<rparr>],
         sellLevels = [], orders = Map.empty\<rparr>) = Some (h', ob') \<and>
     Status (h' ! 1) = StatusFilled \<and>
     Status (h' ! 0) = StatusCancelled \<and> Filled (h' ! 0) = 0 \<and>
     fst (Fill 6 1 (h' ! 0)) \<noteq> None \<and> snd (Fill 6 1 (h' ! 0)) = h' ! 0"
proof -
  let ?h = "[\<lparr>ID = ''b1'', Side = SideBuy, Symbol = ''BTC-USD'', Price = 100, Quantity = 1,
          Filled = 0, Status = StatusCancelled, CreatedAt = 0, UpdatedAt = 2\<rparr>]"
  let ?ob = "\<lparr>symbol = ''BTC-USD'', buyLevels = [\<lparr>LevelPrice = 100, Orders = [0]\<rparr>],
         sellLevels = [], orders = Map.empty\<rparr>"
  let ?ops = "[OpNewOrder ''s1'' 3 SideSell ''BTC-USD'' 100 1, OpAddOrder 4 1, OpCancelOrder 5 ''s1'']"
  have "\<exists>h' ob'. run ?ops (?h, ?ob) = Some (h', ob') \<and> Status (h' ! 1) = StatusFilled"
    by (simp add: scenario_simps match.simps processLevelMatch.simps)
  then obtain h' ob' where r: "run ?ops (?h, ?ob) = Some (h', ob')" and s: "Status (h' ! 1) = StatusFilled"
    by blast
  have "0 < length ?h" "Status (?h ! 0) = StatusCancelled"
    by simp_all
  from cancelled_is_terminal [OF this r, of 6 1] have
    "Status (h' ! 0) = StatusCancelled \<and> Filled (h' ! 0) = 0 \<and>
     fst (Fill 6 1 (h' ! 0)) \<noteq> None \<and> snd (Fill 6 1 (h' ! 0)) = h' ! 0"
    by simp
  with r s show ?thesis
    by blast
qed

section \<open>The book is never left crossed\<close>












section \<open>No order is overfilled\<close>











































section \<open>Looking an order up\<close>



















end
